theory Spec2Isabelle
  imports Main "HOL-Library.Word"
begin

section \<open>Kernel selector: convolution kernel b\_fs\_yx\_fsv4 int8\<close>

text \<open>
  The tensor accessors of the kernel selector return a dimension whose field \<open>v\<close> is the
  extent (a \<open>size_t\<close>); filter size and stride are pairs of unsigned integers. The source
  only compares these values and takes remainders, so they are natural numbers here.
  The field \<open>output\<close> of the parameters is named \<open>output_tensor\<close>, since \<open>output\<close> is
  a keyword of the theory language.
\<close>

record Dim =
  v :: nat

record DataTensor =
  X :: Dim
  Y :: Dim
  Feature :: Dim
  Batch :: Dim

record uSize =
  x :: nat
  y :: nat

record convolution_params =
  inputs :: "DataTensor list"
  output_tensor :: DataTensor
  filterSize :: uSize
  stride :: uSize

datatype KernelsPriority =
  FORCE_PRIORITY_1 | FORCE_PRIORITY_2 | FORCE_PRIORITY_3 | FORCE_PRIORITY_4
  | FORCE_PRIORITY_5 | FORCE_PRIORITY_6 | FORCE_PRIORITY_7 | FORCE_PRIORITY_8
  | FORCE_PRIORITY_9 | DONT_USE_IF_HAVE_SOMETHING_ELSE

text \<open>
  \<open>ConvolutionKernel_b_fs_yx_fsv4_int8::GetKernelsPriority\<close>. The second argument is the
  unnamed \<open>optional_params\<close> of the source.
\<close>

definition GetKernelsPriority :: "convolution_params \<Rightarrow> 'o \<Rightarrow> KernelsPriority" where
  "GetKernelsPriority p options =
     (if v (X (output_tensor p)) > 512 \<and> x (filterSize p) = 5 \<and> y (filterSize p) = 5
      then FORCE_PRIORITY_2
      else FORCE_PRIORITY_9)"

text \<open>
  \<open>ConvolutionKernel_b_fs_yx_fsv4_int8::Validate\<close>. The two checks of the base class,
  \<open>ConvolutionKernelBase::Validate\<close> and \<open>ConvolutionCheckInput\<close>, are not part of the
  sources and are parameters. Reading \<open>params.inputs[0]\<close> of an empty vector is undefined
  behaviour in the source; the model answers \<open>None\<close> there.
\<close>

definition Validate ::
  "(convolution_params \<Rightarrow> 'o \<Rightarrow> bool) \<Rightarrow> (convolution_params \<Rightarrow> 'o \<Rightarrow> bool) \<Rightarrow>
   convolution_params \<Rightarrow> 'o \<Rightarrow> bool option" where
  "Validate base_Validate ConvolutionCheckInput p opt =
     (if \<not> base_Validate p opt \<or> \<not> ConvolutionCheckInput p opt then Some False
      else case inputs p of
        [] \<Rightarrow> None
      | in0 # _ \<Rightarrow>
          if v (X in0) mod 64 \<noteq> 0 then Some False
          else
            let bFilterSize =
                  ((x (filterSize p) = 5 \<and> y (filterSize p) = 5) \<or>
                   (x (filterSize p) = 3 \<and> y (filterSize p) = 3 \<and> v (Feature in0) mod 4 = 0) \<or>
                   (x (filterSize p) = 1 \<and> y (filterSize p) = 1));
                bStride = (x (stride p) = 1 \<and> y (stride p) = 1)
            in if \<not> bFilterSize \<or> \<not> bStride \<or> v (Feature (output_tensor p)) mod 4 \<noteq> 0
                  \<or> v (Batch (output_tensor p)) \<noteq> 1
               then Some False
               else Some True)"

text \<open>The shape constraints as the claim lists them, on the first input \<open>in0\<close>.\<close>

definition fsv4_int8_shape_ok :: "convolution_params \<Rightarrow> DataTensor \<Rightarrow> bool" where
  "fsv4_int8_shape_ok p in0 \<longleftrightarrow>
     64 dvd v (X in0) \<and>
     x (stride p) = 1 \<and> y (stride p) = 1 \<and>
     4 dvd v (Feature (output_tensor p)) \<and>
     v (Batch (output_tensor p)) = 1 \<and>
     ((x (filterSize p) = 5 \<and> y (filterSize p) = 5) \<or>
      (x (filterSize p) = 1 \<and> y (filterSize p) = 1) \<or>
      (x (filterSize p) = 3 \<and> y (filterSize p) = 3 \<and> 4 dvd v (Feature in0)))"

section \<open>CPU plugin: reshape node\<close>

datatype format_tag = undef | a | ab | ba | abc | acb | abcd | acdb | abcde | abcdef

text \<open>
  \<open>MKLDNNReshapeNode::getDataFormats\<close>. The label \<open>defalut:\<close> of the source is an
  ordinary statement label inside the switch body: no case jumps to it, and the statement
  before it returns. A value that matches no case leaves the switch and reaches the
  final return.
\<close>

definition getDataFormats :: "int \<Rightarrow> format_tag list" where
  "getDataFormats ndims =
     (if ndims = 1 then [a]
      else if ndims = 2 then [ab, ba]
      else if ndims = 3 then [abc, acb]
      else if ndims = 4 then [abcd, acdb]
      else if ndims = 5 then [abcde]
      else if ndims = 6 then [abcdef]
      else [undef])"

text \<open>
  \<open>MKLDNNReshapeNode::isSupportedOperation\<close>. A node is known here by the class of its
  operation, which is what the three \<open>dynamic_pointer_cast\<close>s of the source test. The
  helper \<open>isDynamicNgraphNode\<close> is not part of the sources; it is a parameter that either
  answers or raises an exception (\<open>Inl\<close>). \<open>isSupportedOperation_try\<close> is the body of the
  \<open>try\<close> block: it returns false with a message, or falls through (\<open>None\<close>) to the
  \<open>return true\<close> after the block; the handler \<open>catch (...)\<close> returns false and leaves
  the message as it was.
\<close>

datatype node_class = opset1_Reshape | opset1_Squeeze | opset1_Unsqueeze | other_operation string

record ngraph_Node =
  friendly_name :: string
  node_class :: node_class

definition isSupportedOperation_try ::
  "(ngraph_Node \<Rightarrow> 'e + bool) \<Rightarrow> ngraph_Node \<Rightarrow> string \<Rightarrow> 'e + (bool option \<times> string)" where
  "isSupportedOperation_try isDynamicNgraphNode op errorMessage =
     (case isDynamicNgraphNode op of
        Inl e \<Rightarrow> Inl e
      | Inr dyn \<Rightarrow>
          if dyn then Inr (Some False, ''Doesn't support op with dynamic shapes'')
          else if node_class op \<noteq> opset1_Reshape \<and> node_class op \<noteq> opset1_Squeeze
                  \<and> node_class op \<noteq> opset1_Unsqueeze
          then Inr (Some False, ''Only opset1 Reshape, Squeeze, Unsqueeze operations are supported'')
          else Inr (None, errorMessage))"

definition isSupportedOperation ::
  "(ngraph_Node \<Rightarrow> 'e + bool) \<Rightarrow> ngraph_Node \<Rightarrow> string \<Rightarrow> bool \<times> string" where
  "isSupportedOperation isDynamicNgraphNode op errorMessage =
     (case isSupportedOperation_try isDynamicNgraphNode op errorMessage of
        Inl e \<Rightarrow> (False, errorMessage)
      | Inr (Some r, msg) \<Rightarrow> (r, msg)
      | Inr (None, msg) \<Rightarrow> (True, msg))"

text \<open>The operations the claim lists.\<close>

definition reshape_like :: "ngraph_Node \<Rightarrow> bool" where
  "reshape_like op \<longleftrightarrow>
     node_class op = opset1_Reshape \<or> node_class op = opset1_Squeeze \<or> node_class op = opset1_Unsqueeze"


section \<open>Kernel selector: reference concatenation kernel\<close>

text \<open>
  The kernel data as far as \<open>ConcatenationKernelRef::GetKernelsData\<close> touches it: a list
  of kernel-data entries, each with its kernels, each kernel with the global and local
  work sizes (vectors of \<open>size_t\<close>). The fields the function never mentions are the
  extension part of each record, so that an update of a work size leaves them as they are.
\<close>

record WorkGroupSizes =
  global :: "nat list"
  local :: "nat list"

record clKernelParams =
  workGroups :: WorkGroupSizes

record 'p clKernelData =
  params :: "'p clKernelParams_scheme"

record ('p, 'k) KernelData =
  kernels :: "('p, 'k) clKernelData_scheme list"

text \<open>
  Modelled from the spec: \<open>Align\<close> is not part of the sources; it rounds its first
  argument up to a multiple of the second.
\<close>

definition Align :: "nat \<Rightarrow> nat \<Rightarrow> nat" where
  "Align sz align = (if sz mod align = 0 then sz else sz - sz mod align + align)"

text \<open>
  The body of the loop, for one kernel. Reading or writing a work-size vector out of range
  is undefined behaviour in the source; the model answers \<open>None\<close> there. The source writes
  \<open>global[1]\<close> first and \<open>local[1]\<close> second.
\<close>

definition adjust_kernel :: "('p, 'k) clKernelData_scheme \<Rightarrow> ('p, 'k) clKernelData_scheme option" where
  "adjust_kernel krn =
     (let wg = workGroups (params krn) in
      case local wg of
        [] \<Rightarrow> None
      | l0 # _ \<Rightarrow>
          if l0 = 1 then
            (if length (global wg) < 2 then None
             else if global wg ! 1 \<noteq> 1 then
               (if length (local wg) < 2 then None
                else Some (krn\<lparr>params := (params krn)\<lparr>workGroups :=
                       \<lparr>global = (global wg)[1 := Align (global wg ! 1) 32],
                        local = (local wg)[1 := 32]\<rparr>\<rparr>\<rparr>))
             else Some krn)
          else Some krn)"

text \<open>
  The loop counter is an \<open>int\<close> and the bound is \<open>static_cast<int>(kernels.size())\<close>:
  the size modulo \<open>2^32\<close>, read as a signed 32-bit value.
\<close>

definition static_cast_int :: "nat \<Rightarrow> int" where
  "static_cast_int n = (let m = int n mod 2 ^ 32 in if m < 2 ^ 31 then m else m - 2 ^ 32)"

function kernels_loop ::
  "int \<Rightarrow> ('p, 'k) clKernelData_scheme list \<Rightarrow> ('p, 'k) clKernelData_scheme list option" where
  "kernels_loop i ks =
     (if i < static_cast_int (length ks) then
        (case adjust_kernel (ks ! nat i) of
           None \<Rightarrow> None
         | Some krn \<Rightarrow> kernels_loop (i + 1) (ks[nat i := krn]))
      else Some ks)"
  by pat_completeness auto
termination
  by (relation "measure (\<lambda>(i, ks). nat (static_cast_int (length ks) - i))") auto

declare kernels_loop.simps [simp del]

text \<open>
  \<open>ConcatenationKernelRef::GetKernelsData\<close>; \<open>GetCommonKernelsData\<close> of the base class is
  not part of the sources and is a parameter.
\<close>

definition GetKernelsData ::
  "('a \<Rightarrow> 'o \<Rightarrow> ('p, 'k, 'd) KernelData_scheme list) \<Rightarrow> 'a \<Rightarrow> 'o \<Rightarrow>
   ('p, 'k, 'd) KernelData_scheme list option" where
  "GetKernelsData GetCommonKernelsData params' optParams =
     (let kd = GetCommonKernelsData params' optParams in
      case kd of
        [] \<Rightarrow> Some kd
      | kd0 # rest \<Rightarrow>
          (case kernels_loop 0 (kernels kd0) of
             None \<Rightarrow> None
           | Some ks \<Rightarrow> Some (kd0\<lparr>kernels := ks\<rparr> # rest)))"

text \<open>
  What the claim says of one kernel, and the domain on which the loop body reads and
  writes in range.
\<close>

definition adjusted :: "('p, 'k) clKernelData_scheme \<Rightarrow> ('p, 'k) clKernelData_scheme" where
  "adjusted krn =
     (let wg = workGroups (params krn) in
      if local wg ! 0 = 1 \<and> global wg ! 1 \<noteq> 1
      then krn\<lparr>params := (params krn)\<lparr>workGroups :=
             \<lparr>global = (global wg)[1 := Align (global wg ! 1) 32],
              local = (local wg)[1 := 32]\<rparr>\<rparr>\<rparr>
      else krn)"

definition sized :: "('p, 'k) clKernelData_scheme \<Rightarrow> bool" where
  "sized krn \<longleftrightarrow>
     2 \<le> length (global (workGroups (params krn))) \<and>
     2 \<le> length (local (workGroups (params krn)))"


section \<open>CPU plugin: inference request\<close>

text \<open>
  \<open>IE_THROW\<close> raises an exception of the named kind, \<open>GeneralError\<close> when no kind is given.
  The text of the message is left out. A method that can throw returns how it ended
  together with the state it leaves behind, so that what a throwing call has changed can
  be stated.
\<close>

datatype exception = GeneralError | NotFound | NotAllocated | ParameterMismatch | NotImplemented

datatype outcome = Returned | Thrown exception

text \<open>
  Pointers are addresses, 0 the null pointer. Nodes, edges and memory objects are shared
  through pointers in the source; the graph holds them in stores indexed by identifiers.
  A node keeps weak pointers to its edges: \<open>None\<close> is an expired one.
\<close>

type_synonym ptr = nat
type_synonym node_id = nat
type_synonym edge_id = nat
type_synonym mem_id = nat

datatype Type = Input | Output | Concatenation | Split | MemoryInput | Reorder | Generic

record MemoryInputNode =
  getId :: string
  getStore :: mem_id

record Node =
  getName :: string
  getType :: Type
  isConstant :: bool
  isInPlace :: bool
  asConcat_isOptimized :: "bool option"
  asMemoryInput :: "MemoryInputNode option"
  getChildEdges :: "edge_id option list"
  getParentEdges :: "edge_id option list"
  dynBatchLim :: int

record Edge =
  getParent :: node_id
  getChild :: node_id
  getMemoryPtr :: mem_id

record Config =
  enableDynamicBatch :: bool
  batchLimit :: int

record Graph =
  getProperty :: Config
  GetNodes :: "node_id list"
  nodes :: "node_id \<Rightarrow> Node"
  edges :: "edge_id \<Rightarrow> Edge"
  dataHandle :: "mem_id \<Rightarrow> ptr"
  inputNodesMap :: "string \<rightharpoonup> node_id"
  outputNodesMap :: "string \<rightharpoonup> node_id"
  normalizePreprocMap :: "string set"

text \<open>
  Blobs and their descriptors, as far as the request reads them. \<open>blob_size\<close> is what
  \<open>size()\<close> answers, \<open>buffer\<close> what \<open>buffer()\<close> and \<open>cbuffer()\<close> answer, and
  \<open>isCompoundBlob\<close> what \<open>is<CompoundBlob>()\<close> answers. A \<open>Blob::Ptr\<close> is a shared
  pointer that may be null: \<open>None\<close>.
\<close>

datatype Precision =
  UNSPECIFIED | MIXED | FP32 | FP16 | BF16 | FP64 | Q78 | I16 | U4 | U8 | BOOL | I4 | I8 | U16
  | I32 | U32 | I64 | U64 | BIN | CUSTOM

datatype Layout =
  ANY | NCHW | NHWC | NCDHW | NDHWC | OIHW | GOIHW | OIDHW | GOIDHW | SCALAR | C | CHW | HWC
  | HW | NC | CN | BLOCKED

record BlockingDesc =
  getBlockDims :: "nat list"
  getOrder :: "nat list"

record TensorDesc =
  getPrecision :: Precision
  getDims :: "nat list"
  getLayout :: Layout
  getBlockingDesc :: BlockingDesc

record Blob =
  getTensorDesc :: TensorDesc
  isCompoundBlob :: bool
  buffer :: ptr
  blob_size :: nat

record InputInfo =
  input_getPrecision :: Precision
  input_getTensorDesc :: TensorDesc

record Data =
  data_getPrecision :: Precision
  data_getTensorDesc :: TensorDesc
  data_getDims :: "nat list"

record PreProcData =
  getRoiBlob :: "Blob option"

text \<open>
  The members of the request that the modelled methods use. A leading underscore of a
  member name is written \<open>m_\<close>. The maps from names to blobs can hold null pointers.
  The member \<open>graph\<close>, a pointer to one of the graphs of the executable network, is
  \<open>graph_ptr\<close>: the position of that graph, \<open>None\<close> while the pointer is null.
  \<open>modelInputsMap\<close> and \<open>modelOutputsMap\<close> are the two maps that the class \<open>InferRequest\<close>
  adds; they stay empty in a \<open>LegacyInferRequest\<close>.
\<close>

record Request =
  graph_ptr :: "nat option"
  m_curBatch :: int
  m_inputs :: "string \<rightharpoonup> Blob option"
  m_outputs :: "string \<rightharpoonup> Blob option"
  externalPtr :: "string \<rightharpoonup> ptr"
  m_preProcData :: "string \<rightharpoonup> PreProcData"
  m_networkInputs :: "string \<rightharpoonup> InputInfo"
  m_networkOutputs :: "string \<rightharpoonup> Data"
  memoryStates :: "(string \<times> mem_id) list"
  profilingTask :: string
  modelInputsMap :: "string \<rightharpoonup> ngraph_Node"
  modelOutputsMap :: "string \<rightharpoonup> ngraph_Node"

text \<open>
  Modelled from the spec: \<open>Node::setDynamicBatchLim\<close> is not part of the sources; it sets
  the dynamic batch limit of the node.
\<close>

definition setDynamicBatchLim :: "int \<Rightarrow> Node \<Rightarrow> Node" where
  "setDynamicBatchLim lim node = node\<lparr>dynBatchLim := lim\<rparr>"

text \<open>
  \<open>LegacyInferRequest::SetBatch\<close>, on the graph the request points to. The loop visits the
  nodes of \<open>GetNodes\<close> in order.
\<close>

fun SetBatch_nodes :: "int \<Rightarrow> node_id list \<Rightarrow> (node_id \<Rightarrow> Node) \<Rightarrow> (node_id \<Rightarrow> Node)" where
  "SetBatch_nodes new_batch [] ns = ns"
| "SetBatch_nodes new_batch (n # rest) ns =
     SetBatch_nodes new_batch rest (ns(n := setDynamicBatchLim new_batch (ns n)))"

definition SetBatch :: "Graph \<Rightarrow> Request \<Rightarrow> int \<Rightarrow> outcome \<times> Graph \<times> Request" where
  "SetBatch graph req new_batch =
     (if \<not> enableDynamicBatch (getProperty graph) then (Thrown GeneralError, graph, req)
      else if new_batch < 1 \<or> new_batch > batchLimit (getProperty graph)
      then (Thrown GeneralError, graph, req)
      else (Returned,
            graph\<lparr>nodes := SetBatch_nodes new_batch (GetNodes graph) (nodes graph)\<rparr>,
            req\<lparr>m_curBatch := new_batch\<rparr>))"

text \<open>
  The helpers of \<open>SetBlob\<close> that are not part of the sources, as parameters:
  \<open>findInputAndOutputBlobByName\<close> (it throws, or sets the two found pointers),
  \<open>preProcessingRequired\<close>, \<open>PreProcData::isApplicable\<close> (it may throw), \<open>details::product\<close>,
  and \<open>MemoryDescUtils::interpretAsBlob\<close> applied to the memory of the first child edge
  at port 0 of the named input node and to that of the first parent edge at port 0 of the
  named output node (the lookup may throw, the blob may be null).
\<close>

record SetBlob_helpers =
  findInputAndOutputBlobByName :: "Request \<Rightarrow> string \<Rightarrow> exception + (InputInfo option \<times> Data option)"
  preProcessingRequired :: "InputInfo \<Rightarrow> Blob \<Rightarrow> bool"
  isApplicable :: "Blob \<Rightarrow> Blob option \<Rightarrow> exception option"
  product :: "nat list \<Rightarrow> nat"
  interpretInputMemoryAsBlob :: "Graph \<Rightarrow> string \<Rightarrow> exception + Blob option"
  interpretOutputMemoryAsBlob :: "Graph \<Rightarrow> string \<Rightarrow> exception + Blob option"

text \<open>The block \<open>if (foundInput) { ... }\<close> of \<open>LegacyInferRequest::SetBlob\<close>.\<close>

definition SetBlob_foundInput ::
  "SetBlob_helpers \<Rightarrow> Graph \<Rightarrow> Request \<Rightarrow> string \<Rightarrow> Blob \<Rightarrow> InputInfo \<Rightarrow> outcome \<times> Request" where
  "SetBlob_foundInput h graph req name data foundInput =
     (if input_getPrecision foundInput \<noteq> getPrecision (getTensorDesc data)
      then (Thrown ParameterMismatch, req)
      else
        let preProcRequired = preProcessingRequired h foundInput data in
        if isCompoundBlob data \<and> \<not> preProcRequired then (Thrown NotImplemented, req)
        else if preProcRequired then
          (let helper = (case m_preProcData req name of
                           None \<Rightarrow> \<lparr>getRoiBlob = None\<rparr> | Some p \<Rightarrow> p);
               dst = (case m_inputs req name of None \<Rightarrow> None | Some b \<Rightarrow> b);
               req1 = req\<lparr>m_preProcData := (m_preProcData req)(name \<mapsto> helper),
                          m_inputs := (m_inputs req)(name \<mapsto> dst)\<rparr>
           in case isApplicable h data dst of
                Some e \<Rightarrow> (Thrown e, req1)
              | None \<Rightarrow>
                  (Returned, req1\<lparr>m_preProcData :=
                     (m_preProcData req1)(name \<mapsto> helper\<lparr>getRoiBlob := Some data\<rparr>)\<rparr>))
        else
          (let inputSize =
                 (if getLayout (input_getTensorDesc foundInput) \<noteq> SCALAR
                  then product h (getDims (input_getTensorDesc foundInput)) else 1)
           in if blob_size data \<noteq> inputSize then (Thrown GeneralError, req)
              else if getDims (input_getTensorDesc foundInput) \<noteq> getDims (getTensorDesc data)
              then (Thrown ParameterMismatch, req)
              else if getLayout (getTensorDesc data) \<noteq> ANY
                      \<and> getLayout (input_getTensorDesc foundInput) \<noteq> ANY
                      \<and> getBlockingDesc (input_getTensorDesc foundInput)
                          \<noteq> getBlockingDesc (getTensorDesc data)
              then (Thrown ParameterMismatch, req)
              else case interpretInputMemoryAsBlob h graph name of
                     Inl e \<Rightarrow> (Thrown e, req)
                   | Inr None \<Rightarrow> (Thrown GeneralError, req)
                   | Inr (Some pBlob) \<Rightarrow>
                       (let req1 =
                              (if getTensorDesc data = getTensorDesc pBlob
                                  \<and> name \<notin> normalizePreprocMap graph
                                  \<and> batchLimit (getProperty graph) = 0
                               then req\<lparr>externalPtr := (externalPtr req)(name \<mapsto> buffer data)\<rparr>
                               else if externalPtr req name \<noteq> None
                               then req\<lparr>externalPtr := (externalPtr req)(name := None)\<rparr>
                               else req)
                        in (Returned, req1\<lparr>m_inputs := (m_inputs req1)(name \<mapsto> Some data)\<rparr>))))"

text \<open>The block \<open>if (foundOutput) { ... }\<close>.\<close>

definition SetBlob_foundOutput ::
  "SetBlob_helpers \<Rightarrow> Graph \<Rightarrow> Request \<Rightarrow> string \<Rightarrow> Blob \<Rightarrow> Data \<Rightarrow> outcome \<times> Request" where
  "SetBlob_foundOutput h graph req name data foundOutput =
     (if isCompoundBlob data then (Thrown NotImplemented, req)
      else if data_getPrecision foundOutput \<noteq> getPrecision (getTensorDesc data)
      then (Thrown ParameterMismatch, req)
      else
        let outputSize =
              (if getLayout (data_getTensorDesc foundOutput) \<noteq> SCALAR
               then product h (data_getDims foundOutput) else 1)
        in if blob_size data \<noteq> outputSize then (Thrown GeneralError, req)
           else if getDims (data_getTensorDesc foundOutput) \<noteq> getDims (getTensorDesc data)
           then (Thrown ParameterMismatch, req)
           else if getLayout (getTensorDesc data) \<noteq> ANY
                   \<and> getLayout (data_getTensorDesc foundOutput) \<noteq> ANY
                   \<and> getBlockingDesc (data_getTensorDesc foundOutput)
                       \<noteq> getBlockingDesc (getTensorDesc data)
           then (Thrown ParameterMismatch, req)
           else case interpretOutputMemoryAsBlob h graph name of
                  Inl e \<Rightarrow> (Thrown e, req)
                | Inr None \<Rightarrow> (Thrown GeneralError, req)
                | Inr (Some pBlob) \<Rightarrow>
                    (let req1 =
                           (if getTensorDesc data = getTensorDesc pBlob
                               \<and> batchLimit (getProperty graph) = 0
                            then req\<lparr>externalPtr := (externalPtr req)(name \<mapsto> buffer data)\<rparr>
                            else if externalPtr req name \<noteq> None
                            then req\<lparr>externalPtr := (externalPtr req)(name := None)\<rparr>
                            else req)
                     in (Returned, req1\<lparr>m_outputs := (m_outputs req1)(name \<mapsto> Some data)\<rparr>)))"

text \<open>
  \<open>LegacyInferRequest::SetBlob\<close>. The graph is only read. The profiling scope at the head of
  the function has no effect on the state modelled here.
\<close>

definition SetBlob ::
  "SetBlob_helpers \<Rightarrow> Graph \<Rightarrow> Request \<Rightarrow> string \<Rightarrow> Blob option \<Rightarrow> outcome \<times> Request" where
  "SetBlob h graph req name data_ptr =
     (if name = [] then (Thrown NotFound, req)
      else case data_ptr of
        None \<Rightarrow> (Thrown NotAllocated, req)
      | Some data \<Rightarrow>
          let compoundBlobPassed = isCompoundBlob data in
          if \<not> compoundBlobPassed \<and> buffer data = 0 then (Thrown NotAllocated, req)
          else if blob_size data = 0 then (Thrown GeneralError, req)
          else case findInputAndOutputBlobByName h req name of
                 Inl e \<Rightarrow> (Thrown e, req)
               | Inr (foundInput, foundOutput) \<Rightarrow>
                   (case (case foundInput of
                            None \<Rightarrow> (Returned, req)
                          | Some fi \<Rightarrow> SetBlob_foundInput h graph req name data fi) of
                      (Thrown e, req1) \<Rightarrow> (Thrown e, req1)
                    | (Returned, req1) \<Rightarrow>
                        (case foundOutput of
                           None \<Rightarrow> (Returned, req1)
                         | Some fo \<Rightarrow> SetBlob_foundOutput h graph req1 name data fo)))"


text \<open>
  \<open>InferRequestBase::pushInput\<close>. The world \<open>'w\<close> stands for the graph and the memory the
  blobs point to. Not part of the sources, and parameters here: the blocking descriptor
  that the constructor \<open>TensorDesc(precision, dims, layout)\<close> computes, the element count
  \<open>size()\<close> of a new blob, the allocator behind \<open>allocate()\<close> (a null pointer when it fails),
  \<open>cpu_convert\<close> and \<open>Graph::PushInputData\<close>.
\<close>

record 'w pushInput_helpers =
  blockingDescOf :: "nat list \<Rightarrow> Layout \<Rightarrow> BlockingDesc"
  sizeOf :: "TensorDesc \<Rightarrow> nat"
  allocate :: "'w \<Rightarrow> TensorDesc \<Rightarrow> ptr \<times> 'w"
  cpu_convert :: "'w \<Rightarrow> ptr \<Rightarrow> ptr \<Rightarrow> Precision \<Rightarrow> Precision \<Rightarrow> nat \<Rightarrow> 'w"
  PushInputData :: "'w \<Rightarrow> string \<Rightarrow> Blob \<Rightarrow> outcome \<times> 'w"

definition TensorDesc3 :: "'w pushInput_helpers \<Rightarrow> Precision \<Rightarrow> nat list \<Rightarrow> Layout \<Rightarrow> TensorDesc" where
  "TensorDesc3 h prec dims layout =
     \<lparr>getPrecision = prec, getDims = dims, getLayout = layout,
      getBlockingDesc = blockingDescOf h dims layout\<rparr>"

text \<open>
  Modelled from the spec: \<open>make_blob_with_precision\<close> and \<open>Blob::allocate\<close> are not part of
  the sources; together they give a new blob of the requested descriptor, which is not a
  compound blob and whose buffer comes from the allocator.
\<close>

definition make_blob_allocated :: "'w pushInput_helpers \<Rightarrow> 'w \<Rightarrow> TensorDesc \<Rightarrow> Blob \<times> 'w" where
  "make_blob_allocated h w desc =
     (let (p, w1) = allocate h w desc
      in (\<lparr>getTensorDesc = desc, isCompoundBlob = False, buffer = p, blob_size = sizeOf h desc\<rparr>, w1))"

definition pushInput ::
  "'w pushInput_helpers \<Rightarrow> 'w \<Rightarrow> string \<Rightarrow> Blob \<Rightarrow> Precision \<Rightarrow> outcome \<times> 'w" where
  "pushInput h w inputName inputBlob inPrec =
     (let tensorDesc = getTensorDesc inputBlob;
          needConvert = (inPrec \<noteq> getPrecision tensorDesc);
          srcData = buffer inputBlob
      in if srcData = 0 then (Thrown GeneralError, w)
         else if needConvert then
           (let (iconv, w1) = make_blob_allocated h w
                                (TensorDesc3 h inPrec (getDims tensorDesc) (getLayout tensorDesc))
            in if blob_size inputBlob \<noteq> blob_size iconv then (Thrown GeneralError, w1)
               else
                 let dstData = buffer iconv
                 in if dstData = 0 then (Thrown GeneralError, w1)
                    else PushInputData h
                           (cpu_convert h w1 srcData dstData (getPrecision tensorDesc)
                              (getPrecision (getTensorDesc iconv)) (blob_size iconv))
                           inputName iconv)
         else PushInputData h w inputName inputBlob)"


text \<open>
  \<open>InferRequestBase::changeDefaultPtr\<close>. \<open>GetData\<close> of the memory of an edge is the data
  handle of the memory object the edge points to; \<open>changeEdgePtr\<close> sets that handle.
\<close>

definition GetData :: "Graph \<Rightarrow> edge_id \<Rightarrow> ptr" where
  "GetData graph e = dataHandle graph (getMemoryPtr (edges graph e))"

definition changeEdgePtr :: "edge_id \<Rightarrow> ptr \<Rightarrow> Graph \<Rightarrow> Graph" where
  "changeEdgePtr e newPtr graph =
     graph\<lparr>dataHandle := (dataHandle graph)(getMemoryPtr (edges graph e) := newPtr)\<rparr>"

text \<open>
  Modelled from the spec: \<open>Node::getChildEdgeAt\<close> and \<open>Node::getParentEdgeAt\<close> are not part
  of the sources; they give the edge at the index and throw when there is none or when
  it has expired.
\<close>

definition getEdgeAt :: "edge_id option list \<Rightarrow> nat \<Rightarrow> exception + edge_id" where
  "getEdgeAt es idx =
     (if idx \<ge> length es then Inl GeneralError
      else case es ! idx of None \<Rightarrow> Inl GeneralError | Some e \<Rightarrow> Inr e)"

text \<open>
  The inner loop over the child edges of a child: does one of them have the data pointer
  of the edge \<open>ce\<close>? An expired edge met on the way throws.
\<close>

fun child_edges_share :: "Graph \<Rightarrow> ptr \<Rightarrow> edge_id option list \<Rightarrow> exception + bool" where
  "child_edges_share graph ceData [] = Inr False"
| "child_edges_share graph ceData (None # rest) = Inl GeneralError"
| "child_edges_share graph ceData (Some e # rest) =
     (if GetData graph e = ceData then Inr True else child_edges_share graph ceData rest)"

text \<open>The loop over the child edges of the input node that computes \<open>canBeInPlace\<close>.\<close>

fun input_canBeInPlace :: "Graph \<Rightarrow> edge_id option list \<Rightarrow> exception + bool" where
  "input_canBeInPlace graph [] = Inr True"
| "input_canBeInPlace graph (None # rest) = Inl GeneralError"
| "input_canBeInPlace graph (Some ce # rest) =
     (let child = nodes graph (getChild (edges graph ce)) in
      if isConstant child then Inr False
      else if getType child = Concatenation \<and> asConcat_isOptimized child = Some True
      then Inr False
      else if getType child = Split then Inr False
      else if isInPlace child then Inr False
      else case child_edges_share graph (GetData graph ce) (getChildEdges child) of
             Inl ex \<Rightarrow> Inl ex
           | Inr True \<Rightarrow> Inr False
           | Inr False \<Rightarrow> input_canBeInPlace graph rest)"

text \<open>The loop that redirects every child edge of the input node.\<close>

fun change_child_edges :: "ptr \<Rightarrow> edge_id option list \<Rightarrow> Graph \<Rightarrow> outcome \<times> Graph" where
  "change_child_edges newPtr [] graph = (Returned, graph)"
| "change_child_edges newPtr (None # rest) graph = (Thrown GeneralError, graph)"
| "change_child_edges newPtr (Some e # rest) graph =
     change_child_edges newPtr rest (changeEdgePtr e newPtr graph)"

definition changeDefaultPtr_input :: "Graph \<Rightarrow> node_id \<Rightarrow> ptr \<Rightarrow> outcome \<times> Graph" where
  "changeDefaultPtr_input graph inputNodePtr p =
     (let childEdges = getChildEdges (nodes graph inputNodePtr) in
      case getEdgeAt childEdges 0 of
        Inl ex \<Rightarrow> (Thrown ex, graph)
      | Inr e0 \<Rightarrow>
          if GetData graph e0 = p then (Returned, graph)
          else case input_canBeInPlace graph childEdges of
                 Inl ex \<Rightarrow> (Thrown ex, graph)
               | Inr canBeInPlace \<Rightarrow>
                   if canBeInPlace then change_child_edges p childEdges graph
                   else (Returned, graph))"

text \<open>
  The scan of the parent edges inside the \<open>do ... while\<close> loop of the output case: the
  first edge whose data pointer is the default pointer, if any.
\<close>

fun find_parent_edge :: "Graph \<Rightarrow> ptr \<Rightarrow> edge_id option list \<Rightarrow> exception + edge_id option" where
  "find_parent_edge graph defaultPtr [] = Inr None"
| "find_parent_edge graph defaultPtr (None # rest) = Inl GeneralError"
| "find_parent_edge graph defaultPtr (Some e # rest) =
     (if GetData graph e = defaultPtr then Inr (Some e)
      else find_parent_edge graph defaultPtr rest)"

text \<open>
  The \<open>do ... while (previousParent != parent)\<close> loop. It may run forever on a graph with a
  cycle; \<open>None\<close> is that case.
\<close>

partial_function (option) output_canBeInPlace ::
  "Graph \<Rightarrow> ptr \<Rightarrow> node_id \<Rightarrow> (exception + bool) option" where
  "output_canBeInPlace graph defaultPtr parent =
     (if length (getChildEdges (nodes graph parent)) \<noteq> 1 \<or> isConstant (nodes graph parent)
         \<or> isInPlace (nodes graph parent)
      then Some (Inr False)
      else case find_parent_edge graph defaultPtr (getParentEdges (nodes graph parent)) of
             Inl ex \<Rightarrow> Some (Inl ex)
           | Inr None \<Rightarrow> Some (Inr True)
           | Inr (Some e) \<Rightarrow>
               if getParent (edges graph e) = parent then Some (Inr True)
               else output_canBeInPlace graph defaultPtr (getParent (edges graph e)))"

definition changeDefaultPtr_output :: "Graph \<Rightarrow> node_id \<Rightarrow> ptr \<Rightarrow> (outcome \<times> Graph) option" where
  "changeDefaultPtr_output graph outputNodePtr p =
     (case getEdgeAt (getParentEdges (nodes graph outputNodePtr)) 0 of
        Inl ex \<Rightarrow> Some (Thrown ex, graph)
      | Inr parentEdge \<Rightarrow>
          if GetData graph parentEdge = p then Some (Returned, graph)
          else case output_canBeInPlace graph (GetData graph parentEdge)
                      (getParent (edges graph parentEdge)) of
                 None \<Rightarrow> None
               | Some (Inl ex) \<Rightarrow> Some (Thrown ex, graph)
               | Some (Inr canBeInPlace) \<Rightarrow>
                   if canBeInPlace then Some (Returned, changeEdgePtr parentEdge p graph)
                   else Some (Returned, graph))"

text \<open>One iteration of the loop over \<open>externalPtr\<close>, for the entry \<open>it\<close>.\<close>

definition changeDefaultPtr_entry :: "Graph \<Rightarrow> string \<times> ptr \<Rightarrow> (outcome \<times> Graph) option" where
  "changeDefaultPtr_entry graph it =
     (case inputNodesMap graph (fst it) of
        Some inputNodePtr \<Rightarrow> Some (changeDefaultPtr_input graph inputNodePtr (snd it))
      | None \<Rightarrow>
          (case outputNodesMap graph (fst it) of
             Some outputNodePtr \<Rightarrow> changeDefaultPtr_output graph outputNodePtr (snd it)
           | None \<Rightarrow> Some (Thrown GeneralError, graph)))"

text \<open>
  \<open>changeDefaultPtr\<close> itself, on the entries of \<open>externalPtr\<close> in the order in which the loop
  meets them. An exception ends the loop.
\<close>

fun changeDefaultPtr :: "Graph \<Rightarrow> (string \<times> ptr) list \<Rightarrow> (outcome \<times> Graph) option" where
  "changeDefaultPtr graph [] = Some (Returned, graph)"
| "changeDefaultPtr graph (it # rest) =
     (case changeDefaultPtr_entry graph it of
        None \<Rightarrow> None
      | Some (Thrown ex, graph1) \<Rightarrow> Some (Thrown ex, graph1)
      | Some (Returned, graph1) \<Rightarrow> changeDefaultPtr graph1 rest)"

text \<open>
  The conditions of the claim on the child at the end of the child edge \<open>ce\<close>: it is
  constant, an optimized Concat, a Split, in place, or one of its own child edges has the
  data pointer of \<open>ce\<close>.
\<close>

definition child_blocks_inplace :: "Graph \<Rightarrow> edge_id \<Rightarrow> bool" where
  "child_blocks_inplace graph ce \<longleftrightarrow>
     (let child = nodes graph (getChild (edges graph ce)) in
      isConstant child
      \<or> (getType child = Concatenation \<and> asConcat_isOptimized child = Some True)
      \<or> getType child = Split
      \<or> isInPlace child
      \<or> (\<exists>e \<in> set (getChildEdges child). case e of None \<Rightarrow> False
            | Some e' \<Rightarrow> GetData graph e' = GetData graph ce))"

text \<open>
  The condition of the claim on an input node: one of its child edges leads to a child
  that stands in the way. \<open>no_expired\<close> says that no weak pointer of a list has expired.
\<close>

definition input_blocked :: "Graph \<Rightarrow> node_id \<Rightarrow> bool" where
  "input_blocked graph n \<longleftrightarrow>
     (\<exists>ce \<in> set (getChildEdges (nodes graph n)).
        case ce of None \<Rightarrow> False | Some c \<Rightarrow> child_blocks_inplace graph c)"



subsection \<open>Construction and destruction of requests\<close>

text \<open>
  The executable network as far as the request uses it. The counter is an atomic \<open>int\<close>
  in the source: a 32-bit value in two's complement, whose increment and decrement wrap
  around. \<open>sint\<close> reads it as the \<open>int\<close> the source sees.
\<close>

record ExecNetwork =
  m_numRequests :: "32 word"
  m_name :: string
  m_graphs :: "Graph list"

text \<open>\<open>std::to_string\<close> of an integer: its decimal digits, with a sign when negative.\<close>

fun to_string_nat :: "nat \<Rightarrow> string" where
  "to_string_nat n =
     (if n < 10 then [''0123456789'' ! n]
      else to_string_nat (n div 10) @ [''0123456789'' ! (n mod 10)])"

declare to_string_nat.simps [simp del]

definition to_string :: "int \<Rightarrow> string" where
  "to_string i = (if i < 0 then ''-'' @ to_string_nat (nat (- i)) else to_string_nat (nat i))"

text \<open>\<open>std::string::find\<close>: the position of the first occurrence, \<open>None\<close> for \<open>npos\<close>.\<close>

fun string_find :: "string \<Rightarrow> string \<Rightarrow> nat option" where
  "string_find [] pat = (if pat = [] then Some 0 else None)"
| "string_find (c # s) pat =
     (if take (length pat) (c # s) = pat then Some 0
      else map_option Suc (string_find s pat))"

text \<open>
  The loop of \<open>CreateInferRequest\<close> over the nodes of the graph: every node of type
  \<open>MemoryInput\<close> adds a variable state, named by the identifier of the node without the
  suffix that starts at \<open>/id=\<close>. A node of that type that is not a \<open>MemoryInput\<close> object
  throws.
\<close>

fun save_memory_states :: "Graph \<Rightarrow> node_id list \<Rightarrow> Request \<Rightarrow> outcome \<times> Request" where
  "save_memory_states graph [] req = (Returned, req)"
| "save_memory_states graph (n # rest) req =
     (if getType (nodes graph n) = MemoryInput then
        (case asMemoryInput (nodes graph n) of
           None \<Rightarrow> (Thrown GeneralError, req)
         | Some memoryNode \<Rightarrow>
             let state_store = getStore memoryNode;
                 state_name = getId memoryNode;
                 state_name1 = (case string_find state_name ''/id='' of
                                  Some suffix_idx \<Rightarrow> take suffix_idx state_name
                                | None \<Rightarrow> state_name)
             in save_memory_states graph rest
                  (req\<lparr>memoryStates := memoryStates req @ [(state_name1, state_store)]\<rparr>))
      else save_memory_states graph rest req)"

text \<open>
  Modelled from the spec: \<open>ExecNetwork::GetGraph\<close> is not part of the sources; it gives the
  graph of the stream that calls, one of the graphs of the network.
\<close>

definition GetGraph :: "nat \<Rightarrow> ExecNetwork \<Rightarrow> nat" where
  "GetGraph streamId net = streamId mod length (m_graphs net)"

text \<open>
  \<open>InferRequestBase::CreateInferRequest\<close>. \<open>initBlobs\<close> is virtual and a parameter; it works
  on the request and reads the graph. \<open>profilingTask\<close> is kept as the name the handle is
  made for.
\<close>

definition CreateInferRequest ::
  "(Graph \<Rightarrow> Request \<Rightarrow> outcome \<times> Request) \<Rightarrow> nat \<Rightarrow> ExecNetwork \<Rightarrow> Request \<Rightarrow>
   outcome \<times> ExecNetwork \<times> Request" where
  "CreateInferRequest initBlobs streamId net req =
     (let id = m_numRequests net;
          net1 = net\<lparr>m_numRequests := id + 1\<rparr>;
          req1 = req\<lparr>profilingTask :=
                   ''INTEL_CPU_INFER_'' @ m_name net1 @ ''_'' @ to_string (sint id)\<rparr>
      in if length (m_graphs net1) = 0 then (Thrown GeneralError, net1, req1)
         else
           let gi = GetGraph streamId net1;
               req2 = req1\<lparr>graph_ptr := Some gi\<rparr>;
               graph = m_graphs net1 ! gi
           in case initBlobs graph req2 of
                (Thrown ex, req3) \<Rightarrow> (Thrown ex, net1, req3)
              | (Returned, req3) \<Rightarrow>
                  (case save_memory_states graph (GetNodes graph) req3 of
                     (res, req4) \<Rightarrow> (res, net1, req4)))"

text \<open>\<open>InferRequestBase::~InferRequestBase\<close>, on the network the request belongs to.\<close>

definition destroy_InferRequestBase :: "ExecNetwork \<Rightarrow> ExecNetwork" where
  "destroy_InferRequestBase net = net\<lparr>m_numRequests := m_numRequests net - 1\<rparr>"

text \<open>
  Modelled from the spec: the constructors of \<open>InferRequestBase\<close> are not part of the
  sources. The one that \<open>LegacyInferRequest\<close> uses stores the inputs and outputs of the
  network and leaves the other members empty; the one that \<open>InferRequest\<close> uses, from the
  input and output nodes of the model, is a parameter below.
\<close>

definition InferRequestBase ::
  "(string \<rightharpoonup> InputInfo) \<Rightarrow> (string \<rightharpoonup> Data) \<Rightarrow> Request" where
  "InferRequestBase networkInputs networkOutputs =
     \<lparr>graph_ptr = None, m_curBatch = - 1, m_inputs = Map.empty, m_outputs = Map.empty,
      externalPtr = Map.empty, m_preProcData = Map.empty,
      m_networkInputs = networkInputs, m_networkOutputs = networkOutputs,
      memoryStates = [], profilingTask = [],
      modelInputsMap = Map.empty, modelOutputsMap = Map.empty\<rparr>"

text \<open>
  What the two constructors use and the sources do not hold: the virtual \<open>initBlobs\<close> of
  either class, the base constructor from nodes, and the names that
  \<open>get_ie_output_name\<close> gives to an input node and to the value that enters an output node
  (\<open>out->input_value(0)\<close>). Finding such a name either answers or throws.
\<close>

record constructor_helpers =
  LegacyInferRequest_initBlobs :: "Graph \<Rightarrow> Request \<Rightarrow> outcome \<times> Request"
  InferRequest_initBlobs :: "Graph \<Rightarrow> Request \<Rightarrow> outcome \<times> Request"
  InferRequestBase_of_nodes :: "ngraph_Node list \<Rightarrow> ngraph_Node list \<Rightarrow> Request"
  input_ie_output_name :: "ngraph_Node \<Rightarrow> exception + string"
  output_ie_output_name :: "ngraph_Node \<Rightarrow> exception + string"

text \<open>
  The constructor \<open>LegacyInferRequest::LegacyInferRequest\<close>: the base class is constructed,
  then the body calls \<open>CreateInferRequest\<close>. When the body throws, the object does not come
  to life and the destructor of the base class, which was complete, runs.
\<close>

definition LegacyInferRequest ::
  "constructor_helpers \<Rightarrow> nat \<Rightarrow> (string \<rightharpoonup> InputInfo) \<Rightarrow> (string \<rightharpoonup> Data) \<Rightarrow> ExecNetwork \<Rightarrow>
   outcome \<times> ExecNetwork \<times> Request option" where
  "LegacyInferRequest c streamId networkInputs networkOutputs execNetwork =
     (case CreateInferRequest (LegacyInferRequest_initBlobs c) streamId execNetwork
             (InferRequestBase networkInputs networkOutputs) of
        (Thrown ex, net1, req) \<Rightarrow> (Thrown ex, destroy_InferRequestBase net1, None)
      | (Returned, net1, req) \<Rightarrow> (Returned, net1, Some req))"

text \<open>
  The constructor \<open>InferRequest::InferRequest\<close>: the body fills the two maps from the nodes
  and then calls \<open>CreateInferRequest\<close>. Wherever the body throws, the destructor of the
  base class runs: also when a name cannot be found, before \<open>CreateInferRequest\<close> is
  reached.
\<close>

fun fill_model_map ::
  "(ngraph_Node \<Rightarrow> exception + string) \<Rightarrow> ngraph_Node list \<Rightarrow> (string \<rightharpoonup> ngraph_Node) \<Rightarrow>
   exception + (string \<rightharpoonup> ngraph_Node)" where
  "fill_model_map name_of [] m = Inr m"
| "fill_model_map name_of (n # rest) m =
     (case name_of n of
        Inl ex \<Rightarrow> Inl ex
      | Inr nm \<Rightarrow> fill_model_map name_of rest (m(nm \<mapsto> n)))"

definition InferRequest ::
  "constructor_helpers \<Rightarrow> nat \<Rightarrow> ngraph_Node list \<Rightarrow> ngraph_Node list \<Rightarrow> ExecNetwork \<Rightarrow>
   outcome \<times> ExecNetwork \<times> Request option" where
  "InferRequest c streamId ins outs execNetwork =
     (let req0 = InferRequestBase_of_nodes c ins outs in
      case fill_model_map (input_ie_output_name c) ins (modelInputsMap req0) of
        Inl ex \<Rightarrow> (Thrown ex, destroy_InferRequestBase execNetwork, None)
      | Inr inputsMap \<Rightarrow>
          (case fill_model_map (output_ie_output_name c) outs (modelOutputsMap req0) of
             Inl ex \<Rightarrow> (Thrown ex, destroy_InferRequestBase execNetwork, None)
           | Inr outputsMap \<Rightarrow>
               (case CreateInferRequest (InferRequest_initBlobs c) streamId execNetwork
                       (req0\<lparr>modelInputsMap := inputsMap, modelOutputsMap := outputsMap\<rparr>) of
                  (Thrown ex, net1, req) \<Rightarrow> (Thrown ex, destroy_InferRequestBase net1, None)
                | (Returned, net1, req) \<Rightarrow> (Returned, net1, Some req))))"

text \<open>
  A network with the requests that are alive, and what can happen to it: a request of
  either class is constructed, a request is destroyed, or a method is called on a
  request. A method works on the request and on the graph the request points to, as
  \<open>SetBatch\<close>, \<open>SetBlob\<close>, \<open>pushInput\<close> and \<open>changeDefaultPtr\<close> do.
\<close>

record System =
  network :: ExecNetwork
  requests :: "Request list"

datatype event =
  Construct_LegacyInferRequest nat "string \<rightharpoonup> InputInfo" "string \<rightharpoonup> Data"
  | Construct_InferRequest nat "ngraph_Node list" "ngraph_Node list"
  | Destroy nat
  | Call nat "Graph \<Rightarrow> Request \<Rightarrow> Graph \<times> Request"

definition call_on_request ::
  "(Graph \<Rightarrow> Request \<Rightarrow> Graph \<times> Request) \<Rightarrow> nat \<Rightarrow> System \<Rightarrow> System" where
  "call_on_request member i sys =
     (if i < length (requests sys) then
        (case graph_ptr (requests sys ! i) of
           None \<Rightarrow> sys
         | Some gi \<Rightarrow>
             (case member (m_graphs (network sys) ! gi) (requests sys ! i) of
                (graph1, req1) \<Rightarrow>
                  sys\<lparr>network := (network sys)\<lparr>m_graphs := (m_graphs (network sys))[gi := graph1]\<rparr>,
                      requests := (requests sys)[i := req1]\<rparr>))
      else sys)"

definition constructed :: "outcome \<times> ExecNetwork \<times> Request option \<Rightarrow> System \<Rightarrow> System" where
  "constructed r sys =
     (case r of
        (res, net1, None) \<Rightarrow> sys\<lparr>network := net1\<rparr>
      | (res, net1, Some req) \<Rightarrow> sys\<lparr>network := net1, requests := requests sys @ [req]\<rparr>)"

fun step :: "constructor_helpers \<Rightarrow> System \<Rightarrow> event \<Rightarrow> System" where
  "step c sys (Construct_LegacyInferRequest streamId networkInputs networkOutputs) =
     constructed (LegacyInferRequest c streamId networkInputs networkOutputs (network sys)) sys"
| "step c sys (Construct_InferRequest streamId ins outs) =
     constructed (InferRequest c streamId ins outs (network sys)) sys"
| "step c sys (Destroy i) =
     (if i < length (requests sys)
      then sys\<lparr>network := destroy_InferRequestBase (network sys),
               requests := take i (requests sys) @ drop (Suc i) (requests sys)\<rparr>
      else sys)"
| "step c sys (Call i member) = call_on_request member i sys"

fun run :: "constructor_helpers \<Rightarrow> System \<Rightarrow> event list \<Rightarrow> System" where
  "run c sys [] = sys"
| "run c sys (ev # evs) = run c (step c sys ev) evs"


subsection \<open>Example values\<close>

text \<open>
  A small graph to run the definitions on: an input node \<open>in\<close>, a node of the given type
  behind it, and an output node \<open>out\<close>, joined by two edges with a memory object each.
\<close>

definition example_node :: "string \<Rightarrow> Type \<Rightarrow> edge_id option list \<Rightarrow> edge_id option list \<Rightarrow> Node" where
  "example_node nm ty children parents =
     \<lparr>getName = nm, getType = ty, isConstant = False, isInPlace = False,
      asConcat_isOptimized = None, asMemoryInput = None,
      getChildEdges = children, getParentEdges = parents, dynBatchLim = 0\<rparr>"

definition example_graph :: "bool \<Rightarrow> Type \<Rightarrow> Graph" where
  "example_graph dynBatch ty =
     \<lparr>getProperty = \<lparr>enableDynamicBatch = dynBatch, batchLimit = 8\<rparr>,
      GetNodes = [0, 1, 2],
      nodes = (\<lambda>n. if n = 0 then example_node ''in'' Input [Some 0] []
                   else if n = 1 then example_node ''mid'' ty [Some 1] [Some 0]
                   else example_node ''out'' Output [] [Some 1]),
      edges = (\<lambda>e. if e = 0 then \<lparr>getParent = 0, getChild = 1, getMemoryPtr = 0\<rparr>
                   else \<lparr>getParent = 1, getChild = 2, getMemoryPtr = 1\<rparr>),
      dataHandle = (\<lambda>m. 100 + m),
      inputNodesMap = [''in'' \<mapsto> 0],
      outputNodesMap = [''out'' \<mapsto> 2],
      normalizePreprocMap = {}\<rparr>"


text \<open>A blob of two dimensions, and helpers of \<open>SetBlob\<close> that find no input or output.\<close>

definition example_blob :: "Precision \<Rightarrow> ptr \<Rightarrow> nat \<Rightarrow> Blob" where
  "example_blob prec buf n =
     \<lparr>getTensorDesc = \<lparr>getPrecision = prec, getDims = [1, 3], getLayout = NC,
                        getBlockingDesc = \<lparr>getBlockDims = [1, 3], getOrder = [0, 1]\<rparr>\<rparr>,
      isCompoundBlob = False, buffer = buf, blob_size = n\<rparr>"

definition example_SetBlob_helpers :: SetBlob_helpers where
  "example_SetBlob_helpers =
     \<lparr>findInputAndOutputBlobByName = (\<lambda>req name. Inl NotFound),
      preProcessingRequired = (\<lambda>info data. False),
      isApplicable = (\<lambda>src dst. None),
      product = prod_list,
      interpretInputMemoryAsBlob = (\<lambda>graph name. Inr None),
      interpretOutputMemoryAsBlob = (\<lambda>graph name. Inr None)\<rparr>"


text \<open>
  Helpers for \<open>pushInput\<close> on a world that is the list of the blobs pushed so far: the
  allocator always answers the address 8192 and the conversion leaves the world as it is.
\<close>

definition example_pushInput_helpers :: "(string \<times> Blob) list pushInput_helpers" where
  "example_pushInput_helpers =
     \<lparr>blockingDescOf = (\<lambda>dims layout. \<lparr>getBlockDims = dims, getOrder = [0, 1]\<rparr>),
      sizeOf = (\<lambda>desc. prod_list (getDims desc)),
      allocate = (\<lambda>w desc. (8192, w)),
      cpu_convert = (\<lambda>w src dst srcPrec dstPrec n. w),
      PushInputData = (\<lambda>w name blob. (Returned, w @ [(name, blob)]))\<rparr>"


definition example_equal_pointer_graph :: Graph where
  "example_equal_pointer_graph = (example_graph False Generic)\<lparr>dataHandle := (\<lambda>m. 100)\<rparr>"




section \<open>Theorems\<close>

text \<open>
  C7: \<open>GetKernelsPriority\<close> answers \<open>FORCE_PRIORITY_2\<close> when the output X extent exceeds 512
  and the filter is 5x5, and \<open>FORCE_PRIORITY_9\<close> in every other case; the options argument
  has no influence on the answer.
\<close>

theorem GetKernelsPriority_spec:
  "GetKernelsPriority p opt =
     (if 512 < v (X (output_tensor p)) \<and> x (filterSize p) = 5 \<and> y (filterSize p) = 5
      then FORCE_PRIORITY_2 else FORCE_PRIORITY_9)
   \<and> GetKernelsPriority p opt = GetKernelsPriority p opt'"
  by (simp add: GetKernelsPriority_def)

theorem GetKernelsPriority_spec_witness:
  "GetKernelsPriority
     \<lparr>inputs = [], output_tensor = \<lparr>X = \<lparr>v = 1024\<rparr>, Y = \<lparr>v = 8\<rparr>, Feature = \<lparr>v = 4\<rparr>, Batch = \<lparr>v = 1\<rparr>\<rparr>,
      filterSize = \<lparr>x = 5, y = 5\<rparr>, stride = \<lparr>x = 1, y = 1\<rparr>\<rparr> () = FORCE_PRIORITY_2
   \<and> GetKernelsPriority
     \<lparr>inputs = [], output_tensor = \<lparr>X = \<lparr>v = 512\<rparr>, Y = \<lparr>v = 8\<rparr>, Feature = \<lparr>v = 4\<rparr>, Batch = \<lparr>v = 1\<rparr>\<rparr>,
      filterSize = \<lparr>x = 5, y = 5\<rparr>, stride = \<lparr>x = 1, y = 1\<rparr>\<rparr> () = FORCE_PRIORITY_9"
  using GetKernelsPriority_spec
    [of "\<lparr>inputs = [], output_tensor = \<lparr>X = \<lparr>v = 1024\<rparr>, Y = \<lparr>v = 8\<rparr>, Feature = \<lparr>v = 4\<rparr>, Batch = \<lparr>v = 1\<rparr>\<rparr>,
           filterSize = \<lparr>x = 5, y = 5\<rparr>, stride = \<lparr>x = 1, y = 1\<rparr>\<rparr>" "()" "()"]
    GetKernelsPriority_spec
    [of "\<lparr>inputs = [], output_tensor = \<lparr>X = \<lparr>v = 512\<rparr>, Y = \<lparr>v = 8\<rparr>, Feature = \<lparr>v = 4\<rparr>, Batch = \<lparr>v = 1\<rparr>\<rparr>,
           filterSize = \<lparr>x = 5, y = 5\<rparr>, stride = \<lparr>x = 1, y = 1\<rparr>\<rparr>" "()" "()"]
  by simp

text \<open>
  C1: for parameters with a first input that pass both base-class checks, \<open>Validate\<close>
  answers true exactly when the input X extent is divisible by 64, the stride is 1x1, the
  output feature count is divisible by 4, the output batch is 1 and the filter is 5x5, or
  1x1, or 3x3 with an input feature count divisible by 4; and whatever the base-class
  checks say, it answers false when one of these constraints is violated.
\<close>

theorem Validate_iff_shape:
  assumes "inputs p = in0 # ins"
  shows "(base_Validate p opt \<and> ConvolutionCheckInput p opt \<longrightarrow>
            (Validate base_Validate ConvolutionCheckInput p opt = Some True
               \<longleftrightarrow> fsv4_int8_shape_ok p in0))
       \<and> (\<not> fsv4_int8_shape_ok p in0
            \<longrightarrow> Validate base_Validate ConvolutionCheckInput p opt = Some False)"
  using assms
  by (auto simp: Validate_def fsv4_int8_shape_ok_def Let_def dvd_eq_mod_eq_0)

theorem Validate_iff_shape_witness:
  "Validate (\<lambda>_ _. True) (\<lambda>_ _. True)
     \<lparr>inputs = [\<lparr>X = \<lparr>v = 128\<rparr>, Y = \<lparr>v = 7\<rparr>, Feature = \<lparr>v = 8\<rparr>, Batch = \<lparr>v = 1\<rparr>\<rparr>],
      output_tensor = \<lparr>X = \<lparr>v = 128\<rparr>, Y = \<lparr>v = 7\<rparr>, Feature = \<lparr>v = 16\<rparr>, Batch = \<lparr>v = 1\<rparr>\<rparr>,
      filterSize = \<lparr>x = 3, y = 3\<rparr>, stride = \<lparr>x = 1, y = 1\<rparr>\<rparr> () = Some True
   \<and> Validate (\<lambda>_ _. True) (\<lambda>_ _. True)
     \<lparr>inputs = [\<lparr>X = \<lparr>v = 128\<rparr>, Y = \<lparr>v = 7\<rparr>, Feature = \<lparr>v = 6\<rparr>, Batch = \<lparr>v = 1\<rparr>\<rparr>],
      output_tensor = \<lparr>X = \<lparr>v = 128\<rparr>, Y = \<lparr>v = 7\<rparr>, Feature = \<lparr>v = 16\<rparr>, Batch = \<lparr>v = 1\<rparr>\<rparr>,
      filterSize = \<lparr>x = 3, y = 3\<rparr>, stride = \<lparr>x = 1, y = 1\<rparr>\<rparr> () = Some False"
proof -
  let ?in8 = "\<lparr>X = \<lparr>v = 128\<rparr>, Y = \<lparr>v = 7\<rparr>, Feature = \<lparr>v = 8\<rparr>, Batch = \<lparr>v = 1\<rparr>\<rparr>"
  let ?in6 = "\<lparr>X = \<lparr>v = 128\<rparr>, Y = \<lparr>v = 7\<rparr>, Feature = \<lparr>v = 6\<rparr>, Batch = \<lparr>v = 1\<rparr>\<rparr>"
  let ?out = "\<lparr>X = \<lparr>v = 128\<rparr>, Y = \<lparr>v = 7\<rparr>, Feature = \<lparr>v = 16\<rparr>, Batch = \<lparr>v = 1\<rparr>\<rparr>"
  let ?p8 = "\<lparr>inputs = [?in8], output_tensor = ?out,
              filterSize = \<lparr>x = 3, y = 3\<rparr>, stride = \<lparr>x = 1, y = 1\<rparr>\<rparr>"
  let ?p6 = "\<lparr>inputs = [?in6], output_tensor = ?out,
              filterSize = \<lparr>x = 3, y = 3\<rparr>, stride = \<lparr>x = 1, y = 1\<rparr>\<rparr>"
  have i8: "inputs ?p8 = ?in8 # []" and i6: "inputs ?p6 = ?in6 # []" by simp_all
  have ok8: "fsv4_int8_shape_ok ?p8 ?in8" and no6: "\<not> fsv4_int8_shape_ok ?p6 ?in6"
    by (simp_all add: fsv4_int8_shape_ok_def)
  from Validate_iff_shape [OF i8, of "\<lambda>_ _. True" "()" "\<lambda>_ _. True"] ok8
  have "Validate (\<lambda>_ _. True) (\<lambda>_ _. True) ?p8 () = Some True" by simp
  moreover from Validate_iff_shape [OF i6, of "\<lambda>_ _. True" "()" "\<lambda>_ _. True"] no6
  have "Validate (\<lambda>_ _. True) (\<lambda>_ _. True) ?p6 () = Some False" by simp
  ultimately show ?thesis by simp
qed

text \<open>
  C8: for every \<open>ndims\<close> outside 1..6, \<open>getDataFormats\<close> returns the one-element list
  holding \<open>undef\<close>.
\<close>

theorem getDataFormats_outside_range:
  "ndims < 1 \<or> 6 < ndims \<Longrightarrow> getDataFormats ndims = [undef]"
  by (auto simp: getDataFormats_def)

theorem getDataFormats_outside_range_witness:
  "getDataFormats 0 = [undef] \<and> getDataFormats 7 = [undef] \<and> getDataFormats (- 3) = [undef]"
  using getDataFormats_outside_range [of 0] getDataFormats_outside_range [of 7]
    getDataFormats_outside_range [of "- 3"]
  by simp

subsection \<open>Reshape node: supported operations\<close>

text \<open>
  C2: \<open>isSupportedOperation\<close> answers true exactly when the dynamic-shape check answers
  false and the operation is an opset1 Reshape, Squeeze or Unsqueeze; when it answers false
  because of one of the two checks the message it stores is not empty; and an exception
  raised inside is caught: the answer is false and the message is left as it was.
\<close>

theorem isSupportedOperation_spec:
  "(fst (isSupportedOperation isDynamicNgraphNode op errorMessage)
      \<longleftrightarrow> isDynamicNgraphNode op = Inr False \<and> reshape_like op)
   \<and> (isDynamicNgraphNode op = Inr True \<longrightarrow>
        isSupportedOperation isDynamicNgraphNode op errorMessage
          = (False, ''Doesn't support op with dynamic shapes''))
   \<and> (isDynamicNgraphNode op = Inr False \<and> \<not> reshape_like op \<longrightarrow>
        isSupportedOperation isDynamicNgraphNode op errorMessage
          = (False, ''Only opset1 Reshape, Squeeze, Unsqueeze operations are supported''))
   \<and> ((\<exists>dyn. isDynamicNgraphNode op = Inr dyn)
        \<and> \<not> fst (isSupportedOperation isDynamicNgraphNode op errorMessage) \<longrightarrow>
        snd (isSupportedOperation isDynamicNgraphNode op errorMessage) \<noteq> [])
   \<and> (\<forall>e. isDynamicNgraphNode op = Inl e \<longrightarrow>
        isSupportedOperation isDynamicNgraphNode op errorMessage = (False, errorMessage))"
  by (cases "isDynamicNgraphNode op")
     (auto simp: isSupportedOperation_def isSupportedOperation_try_def reshape_like_def)

theorem isSupportedOperation_spec_witness:
  "isSupportedOperation (\<lambda>_. Inr True :: unit + bool)
      \<lparr>friendly_name = ''r'', node_class = opset1_Reshape\<rparr> ''''
     = (False, ''Doesn't support op with dynamic shapes'')
   \<and> isSupportedOperation (\<lambda>_. Inr False :: unit + bool)
      \<lparr>friendly_name = ''t'', node_class = other_operation ''Transpose''\<rparr> ''''
     = (False, ''Only opset1 Reshape, Squeeze, Unsqueeze operations are supported'')
   \<and> fst (isSupportedOperation (\<lambda>_. Inr False :: unit + bool)
      \<lparr>friendly_name = ''s'', node_class = opset1_Squeeze\<rparr> '''')
   \<and> isSupportedOperation (\<lambda>_. Inl () :: unit + bool)
      \<lparr>friendly_name = ''s'', node_class = opset1_Squeeze\<rparr> '''' = (False, '''')"
  using isSupportedOperation_spec
      [of "\<lambda>_. Inr True :: unit + bool" "\<lparr>friendly_name = ''r'', node_class = opset1_Reshape\<rparr>" "''''"]
    isSupportedOperation_spec
      [of "\<lambda>_. Inr False :: unit + bool"
          "\<lparr>friendly_name = ''t'', node_class = other_operation ''Transpose''\<rparr>" "''''"]
    isSupportedOperation_spec
      [of "\<lambda>_. Inr False :: unit + bool" "\<lparr>friendly_name = ''s'', node_class = opset1_Squeeze\<rparr>" "''''"]
    isSupportedOperation_spec
      [of "\<lambda>_. Inl () :: unit + bool" "\<lparr>friendly_name = ''s'', node_class = opset1_Squeeze\<rparr>" "''''"]
  by (simp add: reshape_like_def)

subsection \<open>Reference concatenation kernel: work sizes\<close>

lemma static_cast_int_small: "n < 2 ^ 31 \<Longrightarrow> static_cast_int n = int n"
  by (simp add: static_cast_int_def Let_def)

lemma adjust_kernel_sized: "sized k \<Longrightarrow> adjust_kernel k = Some (adjusted k)"
  by (auto simp: adjust_kernel_def adjusted_def sized_def Let_def split: list.splits)

lemma kernels_loop_map:
  assumes "length ks < 2 ^ 31" and "\<forall>j. i \<le> j \<and> j < length ks \<longrightarrow> sized (ks ! j)" and "i \<le> length ks"
  shows "kernels_loop (int i) ks = Some (take i ks @ map adjusted (drop i ks))"
  using assms
proof (induction "length ks - i" arbitrary: i ks)
  case 0
  then show ?case by (subst kernels_loop.simps) (simp add: static_cast_int_small)
next
  case (Suc d)
  then have lt: "i < length ks" by simp
  let ?k = "adjusted (ks ! i)"
  have step: "kernels_loop (int i) ks = kernels_loop (int (Suc i)) (ks[i := ?k])"
    using lt Suc.prems by (subst kernels_loop.simps) (simp add: static_cast_int_small adjust_kernel_sized add.commute)
  have "kernels_loop (int (Suc i)) (ks[i := ?k])
          = Some (take (Suc i) (ks[i := ?k]) @ map adjusted (drop (Suc i) (ks[i := ?k])))"
    using Suc.hyps(2) Suc.prems lt by (intro Suc.hyps(1)) auto
  also have "take (Suc i) (ks[i := ?k]) = take i ks @ [?k]"
    using lt by (simp add: take_Suc_conv_app_nth)
  also have "drop (Suc i) (ks[i := ?k]) = drop (Suc i) ks" by simp
  finally show ?case using step lt by (simp add: Cons_nth_drop_Suc [symmetric])
qed

lemma Align_32: "n \<le> Align n 32 \<and> Align n 32 < n + 32 \<and> 32 dvd Align n 32"
proof (cases "n mod 32 = 0")
  case True
  then show ?thesis by (simp add: Align_def dvd_eq_mod_eq_0)
next
  case False
  have lt: "n mod 32 < 32" by simp
  have le: "n mod 32 \<le> n" by (rule mod_less_eq_dividend)
  have eq: "n - n mod 32 = 32 * (n div 32)" by (simp add: minus_mod_eq_mult_div)
  have dv: "32 dvd n - n mod 32 + 32" unfolding eq by simp
  from False lt le have "n \<le> n - n mod 32 + 32" "n - n mod 32 + 32 < n + 32" by linarith+
  with False dv show ?thesis by (simp add: Align_def)
qed

lemma adjusted_props:
  assumes "sized k"
  shows "let wg = workGroups (params k); wg' = workGroups (params (adjusted k)) in
           if local wg ! 0 = 1 \<and> global wg ! 1 \<noteq> 1
           then local wg' ! 1 = 32 \<and> global wg' ! 1 = Align (global wg ! 1) 32
                \<and> adjusted k = k\<lparr>params := (params k)\<lparr>workGroups :=
                     \<lparr>global = (global wg)[1 := Align (global wg ! 1) 32],
                      local = (local wg)[1 := 32]\<rparr>\<rparr>\<rparr>
           else adjusted k = k"
  using assms by (simp add: adjusted_def sized_def Let_def)

lemma GetKernelsData_empty:
  "GetCommonKernelsData prm optParams = [] \<Longrightarrow>
     GetKernelsData GetCommonKernelsData prm optParams = Some []"
  by (simp add: GetKernelsData_def)

text \<open>
  C6: when the common kernel data has a first entry (with fewer than \<open>2^31\<close> kernels, each
  with at least two global and two local work sizes), \<open>GetKernelsData\<close> returns the same
  data with the kernels of the first entry adjusted: a kernel whose local size 0 is 1
  and whose global size 1 is not 1 gets local size 1 set to 32 and global size 1 rounded up
  to a multiple of 32, all its other fields and sizes as before; every other kernel, and
  every other entry, is unchanged.
\<close>

theorem GetKernelsData_adjusts:
  assumes common: "GetCommonKernelsData prm optParams = kd0 # rest"
    and len: "length (kernels kd0) < 2 ^ 31"
    and sz: "\<forall>k \<in> set (kernels kd0). sized k"
  shows "\<exists>ks'. GetKernelsData GetCommonKernelsData prm optParams = Some (kd0\<lparr>kernels := ks'\<rparr> # rest)
           \<and> length ks' = length (kernels kd0)
           \<and> (\<forall>i < length ks'.
                 let k = kernels kd0 ! i; wg = workGroups (params k);
                     k' = ks' ! i; wg' = workGroups (params k')
                 in if local wg ! 0 = 1 \<and> global wg ! 1 \<noteq> 1
                    then local wg' ! 1 = 32
                       \<and> global wg' ! 1 = Align (global wg ! 1) 32
                       \<and> 32 dvd global wg' ! 1
                       \<and> global wg ! 1 \<le> global wg' ! 1
                       \<and> global wg' ! 1 < global wg ! 1 + 32
                       \<and> k' = k\<lparr>params := (params k)\<lparr>workGroups :=
                            \<lparr>global = (global wg)[1 := Align (global wg ! 1) 32],
                             local = (local wg)[1 := 32]\<rparr>\<rparr>\<rparr>
                    else k' = k)"
proof -
  let ?ks = "kernels kd0"
  have "\<forall>j. 0 \<le> j \<and> j < length ?ks \<longrightarrow> sized (?ks ! j)"
    using sz by simp
  then have loop: "kernels_loop 0 ?ks = Some (map adjusted ?ks)"
    using kernels_loop_map [of ?ks 0] len by simp
  have res: "GetKernelsData GetCommonKernelsData prm optParams
               = Some (kd0\<lparr>kernels := map adjusted ?ks\<rparr> # rest)"
    by (simp add: GetKernelsData_def common loop)
  have each: "let k = ?ks ! i; wg = workGroups (params k);
                  k' = map adjusted ?ks ! i; wg' = workGroups (params k')
              in if local wg ! 0 = 1 \<and> global wg ! 1 \<noteq> 1
                 then local wg' ! 1 = 32
                    \<and> global wg' ! 1 = Align (global wg ! 1) 32
                    \<and> 32 dvd global wg' ! 1
                    \<and> global wg ! 1 \<le> global wg' ! 1
                    \<and> global wg' ! 1 < global wg ! 1 + 32
                    \<and> k' = k\<lparr>params := (params k)\<lparr>workGroups :=
                         \<lparr>global = (global wg)[1 := Align (global wg ! 1) 32],
                          local = (local wg)[1 := 32]\<rparr>\<rparr>\<rparr>
                 else k' = k"
    if "i < length ?ks" for i
  proof -
    have szi: "sized (?ks ! i)" using sz that by simp
    then have l2: "1 < length (global (workGroups (params (?ks ! i))))"
      "1 < length (local (workGroups (params (?ks ! i))))"
      by (simp_all add: sized_def)
    from adjusted_props [OF szi] Align_32 [of "global (workGroups (params (?ks ! i))) ! 1"] that l2
    show ?thesis by (simp add: Let_def)
  qed
  show ?thesis
    by (rule exI [of _ "map adjusted ?ks"]) (use res each in simp)
qed

theorem GetKernelsData_adjusts_witness:
  "\<exists>ks'. GetKernelsData
     (\<lambda>_ _. [\<lparr>kernels =
        [\<lparr>params = \<lparr>workGroups = \<lparr>global = [8, 40, 1], local = [1, 1, 1]\<rparr>\<rparr>\<rparr>,
         \<lparr>params = \<lparr>workGroups = \<lparr>global = [16, 40, 1], local = [16, 1, 1]\<rparr>\<rparr>\<rparr>]\<rparr>]) () ()
       = Some [\<lparr>kernels = ks'\<rparr>]
     \<and> length ks' = 2
     \<and> local (workGroups (params (ks' ! 0))) ! 1 = 32
     \<and> global (workGroups (params (ks' ! 0))) ! 1 = 64
     \<and> ks' ! 1 = \<lparr>params = \<lparr>workGroups = \<lparr>global = [16, 40, 1], local = [16, 1, 1]\<rparr>\<rparr>\<rparr>"
proof -
  let ?k0 = "\<lparr>params = \<lparr>workGroups = \<lparr>global = [8, 40, 1], local = [1, 1, 1]\<rparr>\<rparr>\<rparr>"
  let ?k1 = "\<lparr>params = \<lparr>workGroups = \<lparr>global = [16, 40, 1], local = [16, 1, 1]\<rparr>\<rparr>\<rparr>"
  let ?kd0 = "\<lparr>kernels = [?k0, ?k1]\<rparr>"
  let ?common = "\<lambda>(_::unit) (_::unit). [?kd0]"
  have h1: "?common () () = ?kd0 # []" by simp
  have h2: "length (kernels ?kd0) < 2 ^ 31" by simp
  have h3: "\<forall>k \<in> set (kernels ?kd0). sized k" by (simp add: sized_def)
  from GetKernelsData_adjusts [of ?common "()" "()", OF h1 h2 h3]
  obtain ks' where res: "GetKernelsData ?common () () = Some (?kd0\<lparr>kernels := ks'\<rparr> # [])"
    and len: "length ks' = 2"
    and each: "\<And>i. i < 2 \<Longrightarrow>
                 (let k = kernels ?kd0 ! i; wg = workGroups (params k);
                     k' = ks' ! i; wg' = workGroups (params k')
                 in if local wg ! 0 = 1 \<and> global wg ! 1 \<noteq> 1
                    then local wg' ! 1 = 32
                       \<and> global wg' ! 1 = Align (global wg ! 1) 32
                       \<and> 32 dvd global wg' ! 1
                       \<and> global wg ! 1 \<le> global wg' ! 1
                       \<and> global wg' ! 1 < global wg ! 1 + 32
                       \<and> k' = k\<lparr>params := (params k)\<lparr>workGroups :=
                            \<lparr>global = (global wg)[1 := Align (global wg ! 1) 32],
                             local = (local wg)[1 := 32]\<rparr>\<rparr>\<rparr>
                    else k' = k)"
    by auto
  from each [of 0] have a: "local (workGroups (params (ks' ! 0))) ! 1 = 32"
    and b: "global (workGroups (params (ks' ! 0))) ! 1 = 64"
    by (simp_all add: Align_def Let_def)
  from each [of 1] have c: "ks' ! 1 = ?k1" by (simp add: Let_def)
  from res len a b c show ?thesis by simp
qed

subsection \<open>Inference request: dynamic batch\<close>

lemma SetBatch_nodes_dyn:
  "dynBatchLim (SetBatch_nodes b ns st n) = (if n \<in> set ns then b else dynBatchLim (st n))"
  by (induction ns arbitrary: st) (auto simp: setDynamicBatchLim_def)


lemma example_graph_fields:
  "getProperty (example_graph dynBatch ty) = \<lparr>enableDynamicBatch = dynBatch, batchLimit = 8\<rparr>"
  "GetNodes (example_graph dynBatch ty) = [0, 1, 2]"
  "nodes (example_graph dynBatch ty) 0 = example_node ''in'' Input [Some 0] []"
  "nodes (example_graph dynBatch ty) (Suc 0) = example_node ''mid'' ty [Some 1] [Some 0]"
  "nodes (example_graph dynBatch ty) 2 = example_node ''out'' Output [] [Some 1]"
  "edges (example_graph dynBatch ty) 0 = \<lparr>getParent = 0, getChild = 1, getMemoryPtr = 0\<rparr>"
  "edges (example_graph dynBatch ty) (Suc 0) = \<lparr>getParent = 1, getChild = 2, getMemoryPtr = 1\<rparr>"
  "dataHandle (example_graph dynBatch ty) = (\<lambda>m. 100 + m)"
  "inputNodesMap (example_graph dynBatch ty) = [''in'' \<mapsto> 0]"
  "outputNodesMap (example_graph dynBatch ty) = [''out'' \<mapsto> 2]"
  by (simp_all add: example_graph_def)

text \<open>
  C3: \<open>SetBatch\<close> throws exactly when dynamic batch is not enabled, or the new batch is
  below 1, or it exceeds the batch limit of the graph; when it throws, the graph and the
  request are as before: the current batch keeps its value and no node has its dynamic
  batch limit changed. When it returns, the current batch and the limit of every node of
  the graph are the new batch.
\<close>

theorem SetBatch_throws_iff:
  "(fst (SetBatch graph req new_batch) \<noteq> Returned \<longleftrightarrow>
      \<not> enableDynamicBatch (getProperty graph) \<or> new_batch < 1
      \<or> new_batch > batchLimit (getProperty graph))
   \<and> (fst (SetBatch graph req new_batch) \<noteq> Returned \<longrightarrow>
        snd (SetBatch graph req new_batch) = (graph, req)
        \<and> m_curBatch (snd (snd (SetBatch graph req new_batch))) = m_curBatch req
        \<and> (\<forall>n. dynBatchLim (nodes (fst (snd (SetBatch graph req new_batch))) n)
                 = dynBatchLim (nodes graph n)))
   \<and> (fst (SetBatch graph req new_batch) = Returned \<longrightarrow>
        m_curBatch (snd (snd (SetBatch graph req new_batch))) = new_batch
        \<and> (\<forall>n \<in> set (GetNodes graph).
              dynBatchLim (nodes (fst (snd (SetBatch graph req new_batch))) n) = new_batch))"
  by (simp add: SetBatch_def SetBatch_nodes_dyn)

theorem SetBatch_throws_iff_witness:
  "fst (SetBatch (example_graph False Generic) (InferRequestBase Map.empty Map.empty) 4) \<noteq> Returned
   \<and> snd (SetBatch (example_graph False Generic) (InferRequestBase Map.empty Map.empty) 4)
       = (example_graph False Generic, InferRequestBase Map.empty Map.empty)
   \<and> fst (SetBatch (example_graph True Generic) (InferRequestBase Map.empty Map.empty) 9) \<noteq> Returned
   \<and> snd (SetBatch (example_graph True Generic) (InferRequestBase Map.empty Map.empty) 9)
       = (example_graph True Generic, InferRequestBase Map.empty Map.empty)
   \<and> fst (SetBatch (example_graph True Generic) (InferRequestBase Map.empty Map.empty) 4) = Returned
   \<and> m_curBatch (snd (snd (SetBatch (example_graph True Generic)
         (InferRequestBase Map.empty Map.empty) 4))) = 4
   \<and> dynBatchLim (nodes (fst (snd (SetBatch (example_graph True Generic)
         (InferRequestBase Map.empty Map.empty) 4))) 1) = 4"
proof -
  let ?r = "InferRequestBase Map.empty Map.empty"
  have a: "fst (SetBatch (example_graph False Generic) ?r 4) \<noteq> Returned
           \<and> snd (SetBatch (example_graph False Generic) ?r 4) = (example_graph False Generic, ?r)"
    using SetBatch_throws_iff [of "example_graph False Generic" ?r 4]
    by (simp add: example_graph_fields)
  have b: "fst (SetBatch (example_graph True Generic) ?r 9) \<noteq> Returned
           \<and> snd (SetBatch (example_graph True Generic) ?r 9) = (example_graph True Generic, ?r)"
    using SetBatch_throws_iff [of "example_graph True Generic" ?r 9]
    by (simp add: example_graph_fields)
  have c: "fst (SetBatch (example_graph True Generic) ?r 4) = Returned
           \<and> m_curBatch (snd (snd (SetBatch (example_graph True Generic) ?r 4))) = 4
           \<and> dynBatchLim (nodes (fst (snd (SetBatch (example_graph True Generic) ?r 4))) 1) = 4"
    using SetBatch_throws_iff [of "example_graph True Generic" ?r 4]
    by (simp add: example_graph_fields)
  from a b c show ?thesis by simp
qed

subsection \<open>Inference request: setting a blob\<close>

text \<open>
  C4: \<open>SetBlob\<close> throws \<open>NotFound\<close> for an empty name; otherwise \<open>NotAllocated\<close> for a null
  blob; otherwise \<open>NotAllocated\<close> for a blob that is not compound and has a null buffer;
  otherwise a general error for a blob of size 0. In each of these cases the request is
  as before, so its inputs, its outputs and its external pointers are not modified.
\<close>

theorem SetBlob_early_errors:
  "(name = [] \<longrightarrow> SetBlob h graph req name data_ptr = (Thrown NotFound, req))
   \<and> (name \<noteq> [] \<and> data_ptr = None \<longrightarrow>
        SetBlob h graph req name data_ptr = (Thrown NotAllocated, req))
   \<and> (\<forall>data. name \<noteq> [] \<and> data_ptr = Some data \<and> \<not> isCompoundBlob data \<and> buffer data = 0 \<longrightarrow>
        SetBlob h graph req name data_ptr = (Thrown NotAllocated, req))
   \<and> (\<forall>data. name \<noteq> [] \<and> data_ptr = Some data \<and> \<not> (\<not> isCompoundBlob data \<and> buffer data = 0)
          \<and> blob_size data = 0 \<longrightarrow>
        SetBlob h graph req name data_ptr = (Thrown GeneralError, req))
   \<and> (name = [] \<or> data_ptr = None
        \<or> (\<exists>data. data_ptr = Some data
              \<and> ((\<not> isCompoundBlob data \<and> buffer data = 0) \<or> blob_size data = 0)) \<longrightarrow>
        fst (SetBlob h graph req name data_ptr) \<noteq> Returned
        \<and> m_inputs (snd (SetBlob h graph req name data_ptr)) = m_inputs req
        \<and> m_outputs (snd (SetBlob h graph req name data_ptr)) = m_outputs req
        \<and> externalPtr (snd (SetBlob h graph req name data_ptr)) = externalPtr req)"
  by (auto simp: SetBlob_def Let_def split: if_splits)

theorem SetBlob_early_errors_witness:
  "SetBlob example_SetBlob_helpers (example_graph False Generic)
      (InferRequestBase Map.empty Map.empty) [] (Some (example_blob FP32 4096 3))
     = (Thrown NotFound, InferRequestBase Map.empty Map.empty)
   \<and> SetBlob example_SetBlob_helpers (example_graph False Generic)
      (InferRequestBase Map.empty Map.empty) ''in'' None
     = (Thrown NotAllocated, InferRequestBase Map.empty Map.empty)
   \<and> SetBlob example_SetBlob_helpers (example_graph False Generic)
      (InferRequestBase Map.empty Map.empty) ''in'' (Some (example_blob FP32 0 3))
     = (Thrown NotAllocated, InferRequestBase Map.empty Map.empty)
   \<and> SetBlob example_SetBlob_helpers (example_graph False Generic)
      (InferRequestBase Map.empty Map.empty) ''in'' (Some (example_blob FP32 4096 0))
     = (Thrown GeneralError, InferRequestBase Map.empty Map.empty)"
proof -
  let ?h = example_SetBlob_helpers and ?g = "example_graph False Generic"
  let ?r = "InferRequestBase Map.empty Map.empty"
  have a: "SetBlob ?h ?g ?r [] (Some (example_blob FP32 4096 3)) = (Thrown NotFound, ?r)"
    using SetBlob_early_errors [of "[]" ?h ?g ?r "Some (example_blob FP32 4096 3)"] by simp
  have b: "SetBlob ?h ?g ?r ''in'' None = (Thrown NotAllocated, ?r)"
    using SetBlob_early_errors [of "''in''" ?h ?g ?r None] by simp
  have c: "SetBlob ?h ?g ?r ''in'' (Some (example_blob FP32 0 3)) = (Thrown NotAllocated, ?r)"
    using SetBlob_early_errors [of "''in''" ?h ?g ?r "Some (example_blob FP32 0 3)"]
    by (simp add: example_blob_def)
  have d: "SetBlob ?h ?g ?r ''in'' (Some (example_blob FP32 4096 0)) = (Thrown GeneralError, ?r)"
    using SetBlob_early_errors [of "''in''" ?h ?g ?r "Some (example_blob FP32 4096 0)"]
    by (simp add: example_blob_def)
  from a b c d show ?thesis by simp
qed

subsection \<open>Inference request: pushing an input\<close>

text \<open>
  C5: \<open>pushInput\<close> throws when the buffer of the input blob is null. Otherwise, when the
  precision of the blob is the requested one, the blob itself is pushed to the graph.
  When the precisions differ, a new blob of the requested precision with the same
  dimensions and layout is allocated; the function throws when its element count is not
  that of the input blob or when its buffer is null, and otherwise pushes the new blob
  after the conversion of the data.
\<close>

theorem pushInput_spec:
  "(buffer inputBlob = 0 \<longrightarrow> pushInput h w inputName inputBlob inPrec = (Thrown GeneralError, w))
   \<and> (buffer inputBlob \<noteq> 0 \<and> getPrecision (getTensorDesc inputBlob) = inPrec \<longrightarrow>
        pushInput h w inputName inputBlob inPrec = PushInputData h w inputName inputBlob)
   \<and> (buffer inputBlob \<noteq> 0 \<and> getPrecision (getTensorDesc inputBlob) \<noteq> inPrec \<longrightarrow>
        (\<exists>iconv w1.
           make_blob_allocated h w
             (TensorDesc3 h inPrec (getDims (getTensorDesc inputBlob))
                (getLayout (getTensorDesc inputBlob))) = (iconv, w1)
           \<and> getPrecision (getTensorDesc iconv) = inPrec
           \<and> getDims (getTensorDesc iconv) = getDims (getTensorDesc inputBlob)
           \<and> getLayout (getTensorDesc iconv) = getLayout (getTensorDesc inputBlob)
           \<and> (blob_size inputBlob \<noteq> blob_size iconv \<or> buffer iconv = 0 \<longrightarrow>
                pushInput h w inputName inputBlob inPrec = (Thrown GeneralError, w1))
           \<and> (blob_size inputBlob = blob_size iconv \<and> buffer iconv \<noteq> 0 \<longrightarrow>
                pushInput h w inputName inputBlob inPrec
                  = PushInputData h
                      (cpu_convert h w1 (buffer inputBlob) (buffer iconv)
                         (getPrecision (getTensorDesc inputBlob)) inPrec (blob_size iconv))
                      inputName iconv)))"
  by (auto simp: pushInput_def make_blob_allocated_def TensorDesc3_def Let_def split: prod.splits)

theorem pushInput_spec_witness:
  "pushInput example_pushInput_helpers [] ''in'' (example_blob FP32 0 3) FP32 = (Thrown GeneralError, [])
   \<and> pushInput example_pushInput_helpers [] ''in'' (example_blob FP32 4096 3) FP32
       = (Returned, [(''in'', example_blob FP32 4096 3)])
   \<and> pushInput example_pushInput_helpers [] ''in'' (example_blob U8 4096 3) FP32
       = (Returned, [(''in'', example_blob FP32 8192 3)])
   \<and> pushInput example_pushInput_helpers [] ''in'' (example_blob U8 4096 5) FP32
       = (Thrown GeneralError, [])"
proof -
  let ?h = example_pushInput_helpers
  have mk: "make_blob_allocated ?h []
              (TensorDesc3 ?h FP32 (getDims (getTensorDesc (example_blob U8 4096 n)))
                 (getLayout (getTensorDesc (example_blob U8 4096 n))))
            = (example_blob FP32 8192 3, [])" for n
    by (simp add: make_blob_allocated_def TensorDesc3_def example_pushInput_helpers_def
        example_blob_def)
  have a: "pushInput ?h [] ''in'' (example_blob FP32 0 3) FP32 = (Thrown GeneralError, [])"
    using pushInput_spec [of "example_blob FP32 0 3" ?h "[]" "''in''" FP32]
    by (simp add: example_blob_def)
  have b: "pushInput ?h [] ''in'' (example_blob FP32 4096 3) FP32
             = (Returned, [(''in'', example_blob FP32 4096 3)])"
    using pushInput_spec [of "example_blob FP32 4096 3" ?h "[]" "''in''" FP32]
    by (simp add: example_blob_def example_pushInput_helpers_def)
  have c: "pushInput ?h [] ''in'' (example_blob U8 4096 3) FP32
             = (Returned, [(''in'', example_blob FP32 8192 3)])"
    using pushInput_spec [of "example_blob U8 4096 3" ?h "[]" "''in''" FP32] mk [of 3]
    by (simp add: example_blob_def example_pushInput_helpers_def)
  have d: "pushInput ?h [] ''in'' (example_blob U8 4096 5) FP32 = (Thrown GeneralError, [])"
    using pushInput_spec [of "example_blob U8 4096 5" ?h "[]" "''in''" FP32] mk [of 5]
    by (simp add: example_blob_def)
  from a b c d show ?thesis by simp
qed

subsection \<open>Inference request: redirecting the memory of input nodes\<close>























text \<open>
  A second run, with two memory objects that have the same data pointer: at the time of
  the call the child shares the pointer with its own child edge; the iteration for the
  output entry, which comes first, changes that, and the iteration for the input entry
  then redirects the child edge of the input node to the pointer of its entry.
\<close>

lemma example_equal_pointer_graph_fields:
  "nodes example_equal_pointer_graph 0 = example_node ''in'' Input [Some 0] []"
  "nodes example_equal_pointer_graph (Suc 0) = example_node ''mid'' Generic [Some 1] [Some 0]"
  "nodes example_equal_pointer_graph 2 = example_node ''out'' Output [] [Some 1]"
  "edges example_equal_pointer_graph 0 = \<lparr>getParent = 0, getChild = 1, getMemoryPtr = 0\<rparr>"
  "edges example_equal_pointer_graph (Suc 0) = \<lparr>getParent = 1, getChild = 2, getMemoryPtr = 1\<rparr>"
  "dataHandle example_equal_pointer_graph = (\<lambda>m. 100)"
  "inputNodesMap example_equal_pointer_graph = [''in'' \<mapsto> 0]"
  "outputNodesMap example_equal_pointer_graph = [''out'' \<mapsto> 2]"
  by (simp_all add: example_equal_pointer_graph_def example_graph_fields)

lemma example_equal_pointer_graph_walk:
  "output_canBeInPlace example_equal_pointer_graph 100 (Suc 0) = Some (Inr True)"
  by (subst output_canBeInPlace.simps, subst output_canBeInPlace.simps)
     (simp add: example_equal_pointer_graph_fields example_node_def GetData_def)

lemma changeDefaultPtr_equal_pointers_example:
  "input_blocked example_equal_pointer_graph 0
   \<and> changeDefaultPtr example_equal_pointer_graph [(''out'', 777), (''in'', 500)]
       = Some (Returned, changeEdgePtr 0 500 (changeEdgePtr 1 777 example_equal_pointer_graph))
   \<and> GetData example_equal_pointer_graph 0 = 100
   \<and> GetData (changeEdgePtr 0 500 (changeEdgePtr 1 777 example_equal_pointer_graph)) 0 = 500"
proof -
  let ?g = example_equal_pointer_graph
  let ?g1 = "changeEdgePtr (Suc 0) 777 ?g"
  have data: "GetData ?g 0 = 100" "GetData ?g (Suc 0) = 100"
    by (simp_all add: GetData_def example_equal_pointer_graph_fields)
  have g1: "nodes ?g1 = nodes ?g" "edges ?g1 = edges ?g" "inputNodesMap ?g1 = inputNodesMap ?g"
    "GetData ?g1 0 = 100" "GetData ?g1 (Suc 0) = 777"
    by (simp_all add: changeEdgePtr_def GetData_def example_equal_pointer_graph_fields)
  have blocked: "input_blocked ?g 0"
    by (simp add: input_blocked_def child_blocks_inplace_def Let_def
        example_equal_pointer_graph_fields example_node_def data)
  have first: "changeDefaultPtr_entry ?g (''out'', 777) = Some (Returned, ?g1)"
    by (simp add: changeDefaultPtr_entry_def changeDefaultPtr_output_def getEdgeAt_def
        example_equal_pointer_graph_fields example_node_def data example_equal_pointer_graph_walk)
  have second: "changeDefaultPtr_entry ?g1 (''in'', 500) = Some (Returned, changeEdgePtr 0 500 ?g1)"
    by (simp add: changeDefaultPtr_entry_def changeDefaultPtr_input_def getEdgeAt_def Let_def
        g1 example_equal_pointer_graph_fields example_node_def)
  have run: "changeDefaultPtr ?g [(''out'', 777), (''in'', 500)]
               = Some (Returned, changeEdgePtr 0 500 ?g1)"
    by (simp add: first second)
  have after: "GetData (changeEdgePtr 0 500 ?g1) 0 = 500"
    by (simp add: GetData_def changeEdgePtr_def example_equal_pointer_graph_fields)
  show ?thesis using blocked run after data by simp
qed

subsection \<open>Executable network: the counter of requests\<close>




lemma counter_wraps_at_ends:
  "sint (m_numRequests (destroy_InferRequestBase (net\<lparr>m_numRequests := - 2147483648\<rparr>))) = 2147483647"
  "sint (m_numRequests (fst (snd (CreateInferRequest initBlobs streamId
      (net\<lparr>m_numRequests := 2147483647\<rparr>) req)))) = - 2147483648"
  by (simp_all add: destroy_InferRequestBase_def CreateInferRequest_def Let_def
      split: prod.splits outcome.splits)




lemma InferRequest_name_throws:
  "fill_model_map (input_ie_output_name c) ins (modelInputsMap (InferRequestBase_of_nodes c ins outs))
     = Inl ex \<Longrightarrow>
   InferRequest c streamId ins outs net = (Thrown ex, destroy_InferRequestBase net, None)"
  by (simp add: InferRequest_def Let_def)














end
